theory Spec2Isabelle
  imports Complex_Main
begin

section \<open>The configuration types of cmd/api\<close>

text \<open>
  The repository's sources hold three revisions of \<^verbatim>\<open>cmd/api/main.go\<close>: the file
  under that name, and the files \<^verbatim>\<open>unnamed/part_001\<close> and \<^verbatim>\<open>unnamed/part_002\<close>.
  Each revision declares a type \<^verbatim>\<open>config\<close>; a later one adds fields to the earlier
  one, so the three types are one record and two extensions of it. Go's \<^verbatim>\<open>int\<close> is
  modelled as \<open>int\<close> (no arithmetic is done on a setting), \<^verbatim>\<open>float64\<close> as \<open>real\<close>,
  a \<^verbatim>\<open>time.Duration\<close> as its number of nanoseconds, an \<^verbatim>\<open>error\<close> as its message.
\<close>

record db_cfg =
  url :: string
  maxOpenConns :: int
  maxIdleConns :: int
  maxIdleTime :: string

record limiter_cfg =
  rps :: real
  burst :: int
  enabled :: bool

text \<open>The field \<^verbatim>\<open>smtp.port\<close> is named \<open>smtp_port\<close>: \<open>port\<close> is the server's port.\<close>

record smtp_cfg =
  host :: string
  smtp_port :: int
  username :: string
  password :: string
  sender :: string

record cors_cfg =
  trustedOrigins :: "string list"

text \<open>\<^verbatim>\<open>config\<close> of \<^verbatim>\<open>src/cmd/api/main.go\<close>.\<close>

record config_api =
  port :: int
  env :: string
  db :: db_cfg

text \<open>\<^verbatim>\<open>config\<close> of \<^verbatim>\<open>unnamed/part_001\<close>.\<close>

record config_001 = config_api +
  limiter :: limiter_cfg

text \<open>\<^verbatim>\<open>config\<close> of \<^verbatim>\<open>unnamed/part_002\<close>.\<close>

record config = config_001 +
  smtp :: smtp_cfg
  cors :: cors_cfg

section \<open>What the program calls outside its own source\<close>

text \<open>
  A connection pool \<^verbatim>\<open>*sql.DB\<close>, as far as this program touches it: the driver and
  the data source name it was opened with, and for each of the three settings the value
  the program passed to the setter last (\<open>None\<close>: the setter was not called).
\<close>

record DB =
  driverName :: string
  dataSourceName :: string
  MaxOpenConns :: "int option"
  MaxIdleConns :: "int option"
  ConnMaxIdleTime :: "int option"

definition SetMaxOpenConns :: "DB \<Rightarrow> int \<Rightarrow> DB" where
  "SetMaxOpenConns d n = d\<lparr>MaxOpenConns := Some n\<rparr>"

definition SetMaxIdleConns :: "DB \<Rightarrow> int \<Rightarrow> DB" where
  "SetMaxIdleConns d n = d\<lparr>MaxIdleConns := Some n\<rparr>"

definition SetConnMaxIdleTime :: "DB \<Rightarrow> int \<Rightarrow> DB" where
  "SetConnMaxIdleTime d t = d\<lparr>ConnMaxIdleTime := Some t\<rparr>"

definition Second :: int where
  "Second = 1000000000"

text \<open>
  The answers of everything the program calls and the sources do not hold: the
  standard library, the packages \<^verbatim>\<open>godotenv\<close> and \<^verbatim>\<open>database/sql\<close>, the
  process environment, the command line and the network. A run is a function of these
  answers. An error result is \<open>Inl\<close> of the message (or \<open>Some\<close> of it where the
  call returns only an error).

  \<^item> \<open>godotenv_Load\<close>: the error of \<^verbatim>\<open>godotenv.Load()\<close>;
  \<^item> \<open>environ\<close>: the environment \<^verbatim>\<open>os.Getenv\<close> reads once \<^verbatim>\<open>Load\<close> has returned;
  \<^item> \<open>Atoi\<close>, \<open>ParseFloat\<close>, \<open>ParseBool\<close>: \<^verbatim>\<open>strconv\<close>'s parsers
    (\<^verbatim>\<open>ParseFloat\<close> at bit size 64);
  \<^item> \<open>Fields\<close>: \<^verbatim>\<open>strings.Fields\<close>;
  \<^item> \<open>flag_Parse\<close>: \<^verbatim>\<open>flag.Parse()\<close>, from the registered variables holding their
    defaults to either the status it ends the process with (the command line is
    refused, or asks for the usage text) or the variables after the command line was
    applied;
  \<^item> \<open>ReadBuildInfo\<close>: the settings of \<^verbatim>\<open>debug.ReadBuildInfo()\<close>, in order;
  \<^item> \<open>sql_Open\<close>: the error of \<^verbatim>\<open>sql.Open(driver, dsn)\<close>;
  \<^item> \<open>ParseDuration\<close>: \<^verbatim>\<open>time.ParseDuration\<close>;
  \<^item> \<open>PingContext\<close>: the error of \<^verbatim>\<open>db.PingContext(ctx)\<close> for a context that is
    cancelled after the given time;
  \<^item> \<open>ListenAndServe\<close>: the error \<^verbatim>\<open>srv.ListenAndServe()\<close> returns for the
    address (it never returns \<^verbatim>\<open>nil\<close>);
  \<^item> \<open>serve\<close>: the error of \<^verbatim>\<open>app.serve()\<close>, a method of this repository that
    the sources do not hold.
\<close>

record 'f world =
  godotenv_Load :: "string option"
  environ :: "string \<rightharpoonup> string"
  Atoi :: "string \<Rightarrow> string + int"
  ParseFloat :: "string \<Rightarrow> string + real"
  ParseBool :: "string \<Rightarrow> string + bool"
  Fields :: "string \<Rightarrow> string list"
  flag_Parse :: "'f \<Rightarrow> int + 'f"
  ReadBuildInfo :: "(string \<times> string) list option"
  sql_Open :: "string \<Rightarrow> string \<Rightarrow> string option"
  ParseDuration :: "string \<Rightarrow> string + int"
  PingContext :: "DB \<Rightarrow> int \<Rightarrow> string option"
  ListenAndServe :: "string \<Rightarrow> string"
  serve :: "string option"

definition Getenv :: "'f world \<Rightarrow> string \<Rightarrow> string" where
  "Getenv w k = (case environ w k of None \<Rightarrow> [] | Some v \<Rightarrow> v)"

section \<open>openDB\<close>

text \<open>
  \<^verbatim>\<open>openDB\<close> is the same function in the three revisions. It returns Go's pair
  \<^verbatim>\<open>(*sql.DB, error)\<close>: \<open>None\<close> is \<^verbatim>\<open>nil\<close>.
\<close>

definition openDB :: "'f world \<Rightarrow> ('a config_api_scheme) \<Rightarrow> DB option \<times> string option" where
  "openDB w cfg =
    (case sql_Open w ''pgx'' (url (db cfg)) of
       Some err \<Rightarrow> (None, Some err)
     | None \<Rightarrow>
        (let db0 = \<lparr>driverName = ''pgx'', dataSourceName = url (db cfg),
                     MaxOpenConns = None, MaxIdleConns = None, ConnMaxIdleTime = None\<rparr>;
             db1 = SetMaxOpenConns db0 (maxOpenConns (db cfg));
             db2 = SetMaxIdleConns db1 (maxIdleConns (db cfg))
         in (case ParseDuration w (maxIdleTime (db cfg)) of
               Inl err \<Rightarrow> (None, Some err)
             | Inr duration \<Rightarrow>
                (let db3 = SetConnMaxIdleTime db2 duration
                 in (case PingContext w db3 (5 * Second) of
                       Some err \<Rightarrow> (None, Some err)
                     | None \<Rightarrow> (Some db3, None))))))"

section \<open>vcs.Version\<close>

text \<open>
  \<^verbatim>\<open>strings.Split(s, sep)\<close> for a separator of one character: the pieces of \<open>s\<close>
  between the occurrences of the separator (one piece more than occurrences).
\<close>

fun Split :: "string \<Rightarrow> char \<Rightarrow> string list" where
  "Split [] sep = [[]]"
| "Split (c # cs) sep =
     (if c = sep then [] # Split cs sep
      else (case Split cs sep of [] \<Rightarrow> [[c]] | p # ps \<Rightarrow> (c # p) # ps))"

text \<open>
  One round of the loop of \<^verbatim>\<open>Version\<close> over the build settings: the
  \<^verbatim>\<open>switch\<close> on the key of the setting, on the four variables \<^verbatim>\<open>time\<close>,
  \<^verbatim>\<open>revision\<close>, \<^verbatim>\<open>modified\<close>, \<^verbatim>\<open>version\<close>. A key of no case changes nothing.
\<close>

definition Version_case ::
  "string \<times> string \<Rightarrow> string \<times> string \<times> bool \<times> string \<Rightarrow> string \<times> string \<times> bool \<times> string"
where
  "Version_case s vars =
     (case s of (Key, Value) \<Rightarrow>
      (case vars of (time, revision, modified, version) \<Rightarrow>
        if Key = ''vcs.time'' then (Value, revision, modified, version)
        else if Key = ''vcs.revision'' then (time, Value, modified, version)
        else if Key = ''vcs.modified'' then
          (time, revision, (if Value = ''true'' then True else modified), version)
        else if Key = ''-ldflags'' then
          (if length (Split Value CHR ''='') = 2
           then (time, revision, modified, Split Value CHR ''='' ! 1)
           else (time, revision, modified, []))
        else (time, revision, modified, version)))"

fun Version_settings ::
  "(string \<times> string) list \<Rightarrow> string \<times> string \<times> bool \<times> string \<Rightarrow> string \<times> string \<times> bool \<times> string"
where
  "Version_settings [] vars = vars"
| "Version_settings (s # ss) vars = Version_settings ss (Version_case s vars)"

definition Version :: "(string \<times> string) list option \<Rightarrow> string" where
  "Version bi =
    (case (case bi of None \<Rightarrow> ([], [], False, [])
                    | Some settings \<Rightarrow> Version_settings settings ([], [], False, []))
     of (time, revision, modified, version) \<Rightarrow>
       if version \<noteq> [] then version
       else if modified then time @ ''-'' @ revision @ ''-dirty''
       else time @ ''-'' @ revision)"

section \<open>Runs of the program\<close>

text \<open>\<^verbatim>\<open>fmt.Sprintf("%d", n)\<close>: the decimal digits of \<open>n\<close>, after a minus sign below zero.\<close>

fun decimal :: "nat \<Rightarrow> string" where
  "decimal n =
     (if n < 10 then [char_of (48 + n)]
      else decimal (n div 10) @ [char_of (48 + n mod 10)])"

declare decimal.simps [simp del]

definition Sprintf_d :: "int \<Rightarrow> string" where
  "Sprintf_d n = (if n < 0 then CHR ''-'' # decimal (nat (- n)) else decimal (nat n))"

text \<open>
  What a run does that can be seen from outside, in order: a line on the standard
  output, \<^verbatim>\<open>fmt.Println(cfg)\<close>, an entry of \<^verbatim>\<open>logger.PrintInfo\<close> with its
  properties, the call of \<^verbatim>\<open>openDB\<close>, a variable published through \<^verbatim>\<open>expvar\<close>,
  the call of \<^verbatim>\<open>srv.ListenAndServe()\<close> (with the configuration of the application
  whose routes the server handles, and the server's address), the call of
  \<^verbatim>\<open>app.serve()\<close> (with the application's configuration), and the deferred
  \<^verbatim>\<open>db.Close()\<close>.
\<close>

datatype 'c event =
    E_Stdout string
  | E_Println 'c
  | E_PrintInfo string "(string \<times> string) list"
  | E_openDB
  | E_expvar string
  | E_ListenAndServe 'c string
  | E_serve 'c
  | E_db_Close

text \<open>
  How a run ends: inside \<^verbatim>\<open>logger.PrintFatal(err, nil)\<close>, inside \<^verbatim>\<open>log.Fatal\<close>,
  in \<^verbatim>\<open>os.Exit\<close> (called by the program or by \<^verbatim>\<open>flag.Parse\<close>), by the return of
  \<^verbatim>\<open>main\<close>, or in a panic on a \<^verbatim>\<open>nil\<close> pool.
\<close>

datatype ending =
    PrintFatal string
  | log_Fatal string
  | os_Exit int
  | Return
  | Panic

record 'c run =
  trace :: "'c event list"
  ending :: ending

text \<open>
  Modelled from the spec: \<^verbatim>\<open>Logger.PrintFatal\<close> of \<^verbatim>\<open>greenlight/internal/jsonlog\<close>
  is not among the sources. The spec gives a fatal startup error a non-zero exit status;
  the model takes \<^verbatim>\<open>PrintFatal\<close> to write its entry and to end the process with
  status 1, so that no statement after a call of it runs. The other cases are Go's:
  \<^verbatim>\<open>log.Fatal\<close> ends the process with status 1, a panic that nothing recovers with
  status 2, the return of \<^verbatim>\<open>main\<close> with status 0.
\<close>

fun exit_status :: "ending \<Rightarrow> int" where
  "exit_status (PrintFatal err) = 1"
| "exit_status (log_Fatal msg) = 1"
| "exit_status (os_Exit code) = code"
| "exit_status Return = 0"
| "exit_status Panic = 2"

definition fatal :: "'c event list \<Rightarrow> string \<Rightarrow> 'c run" where
  "fatal tr err = \<lparr>trace = tr, ending = PrintFatal err\<rparr>"

section \<open>main of src/cmd/api/main.go\<close>


section \<open>main of unnamed/part_001\<close>

text \<open>
  The checks of the environment, from \<^verbatim>\<open>godotenv.Load()\<close> to the registration of
  the flag \<^verbatim>\<open>LIMITER_ENABLED\<close>; \<^verbatim>\<open>unnamed/part_002\<close> begins with the same
  statements. \<open>Inl err\<close>: \<^verbatim>\<open>logger.PrintFatal(err, nil)\<close> is called, at the first
  check that fails. \<open>Inr cfg\<close>: every check passed, and the flag variables hold these
  defaults. The flag \<^verbatim>\<open>ENVIRONEMNT\<close> has the default \<^verbatim>\<open>"development"\<close>, whatever the
  environment variable holds. The error of the empty \<^verbatim>\<open>POSTGRESQL_MAX_IDLE_TIME\<close> is
  formatted from \<^verbatim>\<open>err\<close>, which is \<^verbatim>\<open>nil\<close> there.
\<close>

definition main_env :: "'f world \<Rightarrow> string + config_001" where
  "main_env w =
    (case godotenv_Load w of
       Some err \<Rightarrow> Inl err
     | None \<Rightarrow>
    (case Atoi w (Getenv w ''PORT'') of
       Inl err \<Rightarrow> Inl (''invalid port '' @ err)
     | Inr port' \<Rightarrow>
    (let environment = Getenv w ''ENVIRONEMNT'' in
     if environment \<notin> {''development'', ''staging'', ''production''}
     then Inl (''invalid environment '' @ environment)
     else
    (let postgresUrl = Getenv w ''POSTGRESQL_URL'' in
     if postgresUrl = [] then Inl ''POSTGRESQL_URL is not set''
     else
    (case Atoi w (Getenv w ''POSTGRESQL_MAX_OPEN_CONNS'') of
       Inl err \<Rightarrow> Inl (''invalid POSTGRESQL_MAX_OPEN_CONNS '' @ err)
     | Inr postgresMaxOpenConns \<Rightarrow>
    (case Atoi w (Getenv w ''POSTGRESQL_MAX_IDLE_CONNS'') of
       Inl err \<Rightarrow> Inl (''invalid POSTGRESQL_MAX_IDLE_CONNS '' @ err)
     | Inr postgresMaxIdleConns \<Rightarrow>
    (let postgresMaxIdleTime = Getenv w ''POSTGRESQL_MAX_IDLE_TIME'' in
     if postgresMaxIdleTime = [] then Inl ''invalid POSTGRESQL_MAX_IDLE_TIME %!s(<nil>)''
     else
    (case ParseFloat w (Getenv w ''LIMITER_RPS'') of
       Inl err \<Rightarrow> Inl (''invalid LIMITER_RPS '' @ err)
     | Inr limiterRps \<Rightarrow>
    (case Atoi w (Getenv w ''LIMITER_BURST'') of
       Inl err \<Rightarrow> Inl (''invalid LIMITER_BURST '' @ err)
     | Inr limiterBurst \<Rightarrow>
    (case ParseBool w (Getenv w ''LIMITER_ENABLED'') of
       Inl err \<Rightarrow> Inl (''invalid LIMITER_ENABLED '' @ err)
     | Inr limiterEnabled \<Rightarrow>
        Inr \<lparr>port = port', env = ''development'',
             db = \<lparr>url = postgresUrl, maxOpenConns = postgresMaxOpenConns,
                   maxIdleConns = postgresMaxIdleConns, maxIdleTime = postgresMaxIdleTime\<rparr>,
             limiter = \<lparr>rps = limiterRps, burst = limiterBurst,
                        enabled = limiterEnabled\<rparr>\<rparr>))))))))))"

text \<open>
  As in the first revision, the flag variables are the fields of \<^verbatim>\<open>cfg\<close>, and
  whatever \<^verbatim>\<open>srv.ListenAndServe()\<close> returns goes to \<^verbatim>\<open>logger.PrintFatal\<close>.
\<close>

definition main_001 :: "config_001 world \<Rightarrow> config_001 run" where
  "main_001 w =
    (case main_env w of
       Inl err \<Rightarrow> fatal [] err
     | Inr cfg0 \<Rightarrow>
        (case flag_Parse w cfg0 of
           Inl code \<Rightarrow> \<lparr>trace = [], ending = os_Exit code\<rparr>
         | Inr cfg \<Rightarrow>
            (case snd (openDB w cfg) of
               Some err \<Rightarrow> fatal [E_Println cfg, E_openDB] err
             | None \<Rightarrow>
                (let Addr = '':'' @ Sprintf_d (port cfg)
                 in fatal
                      [E_Println cfg,
                       E_openDB,
                       E_PrintInfo ''database connection pool established'' [],
                       E_PrintInfo ''Starting server'' [(''addr'', Addr), (''env'', env cfg)],
                       E_ListenAndServe cfg Addr]
                      (ListenAndServe w Addr)))))"

section \<open>main of unnamed/part_002\<close>

text \<open>
  The flag variables of this revision: the fields of \<^verbatim>\<open>cfg\<close> (but
  \<^verbatim>\<open>cfg.cors\<close>, which no flag points into), the local variable
  \<^verbatim>\<open>trustedOrigins\<close> and the variable behind \<^verbatim>\<open>displayVersion\<close>.
\<close>

record flagvars =
  vars_cfg :: config
  vars_trustedOrigins :: string
  vars_displayVersion :: bool

text \<open>
  The checks of the environment of this revision: those of \<open>main_env\<close>, then the
  \<^verbatim>\<open>SMTP_\<close> settings. \<^verbatim>\<open>cfg.cors.trustedOrigins\<close> is assigned from the
  environment variable before \<^verbatim>\<open>flag.Parse()\<close> runs.
\<close>

definition main_env_smtp :: "'f world \<Rightarrow> string + flagvars" where
  "main_env_smtp w =
    (case main_env w of
       Inl err \<Rightarrow> Inl err
     | Inr c \<Rightarrow>
    (let smtpHost = Getenv w ''SMTP_HOST'' in
     if smtpHost = [] then Inl ''SMTP_HOST is not set''
     else
    (case Atoi w (Getenv w ''SMTP_PORT'') of
       Inl err \<Rightarrow> Inl (''invalid SMTP_PORT '' @ err)
     | Inr smtpPort \<Rightarrow>
    (let smtpUsername = Getenv w ''SMTP_USERNAME'' in
     if smtpUsername = [] then Inl ''SMTP_USERNAME is not set''
     else
    (let smtpPassword = Getenv w ''SMTP_PASSWORD'' in
     if smtpPassword = [] then Inl ''SMTP_PASSWORD is not set''
     else
    (let smtpSender = Getenv w ''SMTP_SENDER'' in
     if smtpSender = [] then Inl ''SMTP_SENDER is not set''
     else
    (let trustedOrigins' = Getenv w ''CORS_TRUSTED_ORIGINS'' in
     Inr \<lparr>vars_cfg =
            \<lparr>port = port c, env = env c, db = db c, limiter = limiter c,
             smtp = \<lparr>host = smtpHost, smtp_port = smtpPort, username = smtpUsername,
                     password = smtpPassword, sender = smtpSender\<rparr>,
             cors = \<lparr>trustedOrigins = Fields w trustedOrigins'\<rparr>\<rparr>,
          vars_trustedOrigins = trustedOrigins',
          vars_displayVersion = False\<rparr>)))))))"

text \<open>
  \<^verbatim>\<open>main\<close> from \<^verbatim>\<open>flag.Parse()\<close> on. The deferred \<^verbatim>\<open>db.Close()\<close> runs when
  \<^verbatim>\<open>main\<close> returns, which it does when \<^verbatim>\<open>app.serve()\<close> returns \<^verbatim>\<open>nil\<close>; on a
  \<^verbatim>\<open>nil\<close> pool the call would panic.
\<close>

definition main :: "flagvars world \<Rightarrow> config run" where
  "main w =
    (case main_env_smtp w of
       Inl err \<Rightarrow> fatal [] err
     | Inr vars0 \<Rightarrow>
        (case flag_Parse w vars0 of
           Inl code \<Rightarrow> \<lparr>trace = [], ending = os_Exit code\<rparr>
         | Inr vars \<Rightarrow>
            (let cfg = (vars_cfg vars)\<lparr>cors := cors (vars_cfg vars0)\<rparr> in
             if vars_displayVersion vars
             then \<lparr>trace = [E_Stdout (''Version:'' @ [CHR 0x09] @ Version (ReadBuildInfo w)
                                       @ [CHR 0x0A])],
                   ending = os_Exit 0\<rparr>
             else
               (case openDB w cfg of
                  (pool, Some err) \<Rightarrow> fatal [E_openDB] err
                | (pool, None) \<Rightarrow>
                   (let tr = [E_openDB,
                              E_PrintInfo ''database connection pool established'' [],
                              E_expvar ''version'', E_expvar ''goroutines'',
                              E_expvar ''database'', E_expvar ''timestamp'',
                              E_serve cfg]
                    in (case serve w of
                          Some err \<Rightarrow> fatal tr err
                        | None \<Rightarrow>
                           (case pool of
                              None \<Rightarrow> \<lparr>trace = tr, ending = Panic\<rparr>
                            | Some db' \<Rightarrow> \<lparr>trace = tr @ [E_db_Close], ending = Return\<rparr>)))))))"

section \<open>The limiter, the resolver and the gate, from the spec\<close>

text \<open>
  The middleware of the repository (the rate limiter, the authentication and the
  permission checks) is not among the sources. The definitions of this section follow
  the spec's sections 3 and 4.1 to 4.3. Timestamps are seconds on the real line; the
  spec's float arithmetic is taken without rounding.
\<close>

record TokenBucket =
  capacity :: real
  refillRate :: real
  tokens :: real
  lastRefill :: real

record LimiterEntry =
  bucket :: TokenBucket
  lastSeen :: real

type_synonym ClientLimiter = "string \<rightharpoonup> LimiterEntry"

text \<open>
  Modelled from the spec: the bucket \<^verbatim>\<open>Allow\<close> creates for a key it has not seen.
  The limiter's configuration \<^verbatim>\<open>{requestsPerSecond, burst, enabled}\<close> is the
  \<^verbatim>\<open>limiter\<close> field of \<^verbatim>\<open>config\<close>. The spec does not say what a new bucket
  holds: the model takes \<^verbatim>\<open>burst\<close> as its capacity, \<^verbatim>\<open>requestsPerSecond\<close> as its
  refill rate, and fills it.
\<close>

definition new_bucket :: "limiter_cfg \<Rightarrow> real \<Rightarrow> TokenBucket" where
  "new_bucket cfg now =
     \<lparr>capacity = of_int (burst cfg), refillRate = rps cfg,
      tokens = of_int (burst cfg), lastRefill = now\<rparr>"

text \<open>
  Modelled from the spec: the refill of \<^verbatim>\<open>Allow\<close>, "compute elapsed time since
  \<^verbatim>\<open>lastRefill\<close>; add \<^verbatim>\<open>elapsed * refillRate\<close> tokens, capped at \<^verbatim>\<open>capacity\<close>".
\<close>

definition refill :: "TokenBucket \<Rightarrow> real \<Rightarrow> TokenBucket" where
  "refill b now =
     (let elapsed = now - lastRefill b
      in b\<lparr>tokens := min (capacity b) (tokens b + elapsed * refillRate b),
            lastRefill := now\<rparr>)"

text \<open>
  Modelled from the spec: \<^verbatim>\<open>ClientLimiter.Allow(key)\<close>, called at the time \<open>now\<close>,
  on the limiter's map, which it returns updated. "Look up or create the bucket for
  \<^verbatim>\<open>key\<close>; [refill]; if \<^verbatim>\<open>tokens >= 1\<close>, subtract 1 and return allowed=true, else
  return allowed=false. Update \<^verbatim>\<open>lastSeen\<close>. When \<^verbatim>\<open>enabled=false\<close>, \<^verbatim>\<open>Allow\<close>
  always returns true and no bucket is created."
\<close>

definition Allow :: "limiter_cfg \<Rightarrow> real \<Rightarrow> string \<Rightarrow> ClientLimiter \<Rightarrow> bool \<times> ClientLimiter" where
  "Allow cfg now key m =
     (if \<not> enabled cfg then (True, m)
      else
        (let b = refill (case m key of None \<Rightarrow> new_bucket cfg now | Some e \<Rightarrow> bucket e) now
         in if 1 \<le> tokens b
            then (True, m(key \<mapsto> \<lparr>bucket = b\<lparr>tokens := tokens b - 1\<rparr>, lastSeen = now\<rparr>))
            else (False, m(key \<mapsto> \<lparr>bucket = b, lastSeen = now\<rparr>))))"

text \<open>
  A sequence of calls, each with its time and its key: the answers in order, with the
  map after the last call; and the map after each call.
\<close>

fun Allows :: "limiter_cfg \<Rightarrow> (real \<times> string) list \<Rightarrow> ClientLimiter \<Rightarrow> bool list \<times> ClientLimiter" where
  "Allows cfg [] m = ([], m)"
| "Allows cfg (c # calls) m =
     (case Allow cfg (fst c) (snd c) m of
        (allowed, m') \<Rightarrow>
          (case Allows cfg calls m' of (answers, m'') \<Rightarrow> (allowed # answers, m'')))"

fun Allow_states :: "limiter_cfg \<Rightarrow> (real \<times> string) list \<Rightarrow> ClientLimiter \<Rightarrow> ClientLimiter list" where
  "Allow_states cfg [] m = []"
| "Allow_states cfg (c # calls) m =
     snd (Allow cfg (fst c) (snd c) m) # Allow_states cfg calls (snd (Allow cfg (fst c) (snd c) m))"

text \<open>
  The invariant of the spec's data model on a bucket (\<^verbatim>\<open>tokens\<close> within
  \<^verbatim>\<open>0..capacity\<close>), with what the refill needs to keep it: a rate that is not
  negative, and a last refill that is not in the future.
\<close>

definition bucket_ok :: "real \<Rightarrow> TokenBucket \<Rightarrow> bool" where
  "bucket_ok now b \<longleftrightarrow>
     0 \<le> tokens b \<and> tokens b \<le> capacity b \<and> 0 \<le> refillRate b \<and> lastRefill b \<le> now"

definition limiter_ok :: "real \<Rightarrow> ClientLimiter \<Rightarrow> bool" where
  "limiter_ok now m \<longleftrightarrow> (\<forall>k e. m k = Some e \<longrightarrow> bucket_ok now (bucket e))"

text \<open>
  Modelled from the spec: \<^verbatim>\<open>Identity\<close> is \<^verbatim>\<open>{id, activated, permissionSet}\<close> (the
  field \<^verbatim>\<open>id\<close> is named \<open>ident\<close>), and "a sentinel anonymous identity represents an
  unauthenticated caller". The spec does not say which value the sentinel is.
\<close>

record Identity =
  ident :: nat
  activated :: bool
  permissionSet :: "string set"

definition AnonymousIdentity :: Identity where
  "AnonymousIdentity = \<lparr>ident = 0, activated = False, permissionSet = {}\<rparr>"

datatype error =
    RateLimitExceededError
  | InvalidCredentialError
  | AuthenticationRequiredError
  | AccountNotActivatedError
  | PermissionDeniedError
  | StoreError string

text \<open>
  Modelled from the spec: the collaborators of \<^verbatim>\<open>IdentityResolver\<close> (section 6) and
  what it needs to "hash/validate the credential". \<^verbatim>\<open>CredentialStore.Lookup\<close> gives
  the user and the expiry of a token hash, \<^verbatim>\<open>UserStore.GetByID\<close> the activation flag
  and the permission codes of a user; \<open>Inl\<close> is the collaborator's error. These
  functions are the stored state \<^verbatim>\<open>Resolve\<close> reads.
\<close>

record stores =
  hash :: "string \<Rightarrow> string"
  wellformed :: "string \<Rightarrow> bool"
  Lookup :: "string \<Rightarrow> string + nat \<times> real"
  GetByID :: "nat \<Rightarrow> string + bool \<times> string set"

text \<open>
  Modelled from the spec: \<^verbatim>\<open>IdentityResolver.Resolve(credential)\<close>, at the time
  \<open>now\<close>, returning its result with the stored state after the call. "(1) If no
  credential present, return the anonymous Identity, no error; (2) hash/validate the
  credential, look up a non-expired token record; (3) on no match or expiry, fail with
  \<^verbatim>\<open>InvalidCredentialError\<close>; (4) on match, load the associated user's activation flag
  and permission codes and return an Identity snapshot." A token whose expiry is not
  after \<open>now\<close> counts as expired. The spec does not say what an error of the user
  store becomes: the model passes it on.
\<close>

definition Resolve :: "stores \<Rightarrow> real \<Rightarrow> string option \<Rightarrow> (error + Identity) \<times> stores" where
  "Resolve st now credential =
     (case credential of
        None \<Rightarrow> (Inr AnonymousIdentity, st)
      | Some c \<Rightarrow>
          if \<not> wellformed st c then (Inl InvalidCredentialError, st)
          else
            (case Lookup st (hash st c) of
               Inl err \<Rightarrow> (Inl InvalidCredentialError, st)
             | Inr (userId, expiry) \<Rightarrow>
                 if expiry \<le> now then (Inl InvalidCredentialError, st)
                 else
                   (case GetByID st userId of
                      Inl err \<Rightarrow> (Inl (StoreError err), st)
                    | Inr (act, perms) \<Rightarrow>
                        (Inr \<lparr>ident = userId, activated = act, permissionSet = perms\<rparr>, st))))"

text \<open>
  Modelled from the spec: the three checks of \<^verbatim>\<open>CapabilityGate\<close>, each wrapping a
  handler, which takes the identity attached to the request and returns its result or
  an error. "Authentication is always checked before activation, which is always
  checked before a specific permission": \<^verbatim>\<open>RequireActivated\<close> wraps its check in
  \<^verbatim>\<open>RequireAuthenticated\<close>, and \<^verbatim>\<open>RequirePermission\<close> wraps its check in
  \<^verbatim>\<open>RequireActivated\<close>.
\<close>

definition RequireAuthenticated :: "(Identity \<Rightarrow> error + 'r) \<Rightarrow> Identity \<Rightarrow> error + 'r" where
  "RequireAuthenticated handler i =
     (if i = AnonymousIdentity then Inl AuthenticationRequiredError else handler i)"

definition RequireActivated :: "(Identity \<Rightarrow> error + 'r) \<Rightarrow> Identity \<Rightarrow> error + 'r" where
  "RequireActivated handler =
     RequireAuthenticated
       (\<lambda>i. if \<not> activated i then Inl AccountNotActivatedError else handler i)"

definition RequirePermission :: "string \<Rightarrow> (Identity \<Rightarrow> error + 'r) \<Rightarrow> Identity \<Rightarrow> error + 'r" where
  "RequirePermission code handler =
     RequireActivated
       (\<lambda>i. if code \<notin> permissionSet i then Inl PermissionDeniedError else handler i)"

section \<open>Sample inputs\<close>

text \<open>
  A world in which every check of the three revisions passes, for the concrete runs
  below. Its parsers read what the sample environment holds: \<open>sample_Atoi\<close> reads
  the unsigned decimal numbers.
\<close>

definition sample_Atoi :: "string \<Rightarrow> string + int" where
  "sample_Atoi s =
     (if s \<noteq> [] \<and> list_all (\<lambda>c. c \<in> set ''0123456789'') s
      then Inr (int (foldl (\<lambda>n c. 10 * n + (of_char c - 48)) 0 s))
      else Inl (''strconv.Atoi: parsing '' @ s @ '': invalid syntax''))"

definition sample_environ :: "string \<rightharpoonup> string" where
  "sample_environ = map_of
     [(''PORT'', ''4000''), (''ENVIRONEMNT'', ''production''),
      (''POSTGRESQL_URL'', ''postgres://greenlight''),
      (''POSTGRESQL_MAX_OPEN_CONNS'', ''25''), (''POSTGRESQL_MAX_IDLE_CONNS'', ''20''),
      (''POSTGRESQL_MAX_IDLE_TIME'', ''15m''),
      (''LIMITER_RPS'', ''2''), (''LIMITER_BURST'', ''4''), (''LIMITER_ENABLED'', ''true''),
      (''SMTP_HOST'', ''smtp.example.com''), (''SMTP_PORT'', ''587''),
      (''SMTP_USERNAME'', ''user''), (''SMTP_PASSWORD'', ''secret''),
      (''SMTP_SENDER'', ''noreply'')]"

definition sample_world :: "'f world" where
  "sample_world =
     \<lparr>godotenv_Load = None,
      environ = sample_environ,
      Atoi = sample_Atoi,
      ParseFloat = (\<lambda>s. if s = ''2'' then Inr 2 else Inl ''invalid syntax''),
      ParseBool = (\<lambda>s. if s = ''true'' then Inr True else if s = ''false'' then Inr False
                        else Inl ''invalid syntax''),
      Fields = (\<lambda>s. if s = [] then [] else [s]),
      flag_Parse = Inr,
      ReadBuildInfo = Some [(''vcs.time'', ''2024''), (''vcs.revision'', ''abc'')],
      sql_Open = (\<lambda>driver dsn. None),
      ParseDuration = (\<lambda>s. if s = ''15m'' then Inr (900 * Second) else Inl ''invalid duration''),
      PingContext = (\<lambda>pool timeout. None),
      ListenAndServe = (\<lambda>addr. ''http: Server closed''),
      serve = None\<rparr>"

definition sample_cfg :: config_api where
  "sample_cfg = \<lparr>port = 4000, env = ''development'',
                  db = \<lparr>url = ''postgres://greenlight'', maxOpenConns = 25,
                        maxIdleConns = 20, maxIdleTime = ''15m''\<rparr>\<rparr>"

text \<open>The sample world with the variable \<^verbatim>\<open>ENVIRONEMNT\<close> unset.\<close>

definition unset_environment_world :: "'f world" where
  "unset_environment_world =
     sample_world\<lparr>environ := sample_environ(''ENVIRONEMNT'' := None)\<rparr>"

text \<open>What \<open>main_env\<close> returns in the sample world.\<close>

definition sample_cfg_001 :: config_001 where
  "sample_cfg_001 =
     \<lparr>port = 4000, env = ''development'',
      db = \<lparr>url = ''postgres://greenlight'', maxOpenConns = 25, maxIdleConns = 20,
            maxIdleTime = ''15m''\<rparr>,
      limiter = \<lparr>rps = 2, burst = 4, enabled = True\<rparr>\<rparr>"

text \<open>The flag variables of \<^verbatim>\<open>unnamed/part_002\<close> in the sample world, with their defaults.\<close>

definition sample_vars :: flagvars where
  "sample_vars =
     \<lparr>vars_cfg =
        \<lparr>port = 4000, env = ''development'',
         db = \<lparr>url = ''postgres://greenlight'', maxOpenConns = 25, maxIdleConns = 20,
               maxIdleTime = ''15m''\<rparr>,
         limiter = \<lparr>rps = 2, burst = 4, enabled = True\<rparr>,
         smtp = \<lparr>host = ''smtp.example.com'', smtp_port = 587, username = ''user'',
                 password = ''secret'', sender = ''noreply''\<rparr>,
         cors = \<lparr>trustedOrigins = []\<rparr>\<rparr>,
      vars_trustedOrigins = [],
      vars_displayVersion = False\<rparr>"

text \<open>The sample world with a command line that sets \<^verbatim>\<open>-version\<close>.\<close>

definition version_world :: "flagvars world" where
  "version_world = sample_world\<lparr>flag_Parse := \<lambda>vars. Inr (vars\<lparr>vars_displayVersion := True\<rparr>)\<rparr>"

text \<open>The same command line where \<^verbatim>\<open>godotenv.Load()\<close> finds no \<^verbatim>\<open>.env\<close> file.\<close>

definition version_no_dotenv_world :: "flagvars world" where
  "version_no_dotenv_world =
     version_world\<lparr>godotenv_Load := Some ''open .env: no such file or directory''\<rparr>"


text \<open>The sample world with one more variable in the environment.\<close>

definition with_setting :: "string \<Rightarrow> string \<Rightarrow> flagvars world" where
  "with_setting k v =
     sample_world\<lparr>environ := (environ (sample_world :: flagvars world))(k \<mapsto> v)\<rparr>"

text \<open>A token store that knows one token, which expires at time 100.\<close>

definition sample_stores :: stores where
  "sample_stores =
     \<lparr>hash = rev, wellformed = (\<lambda>c. length c = 26),
      Lookup = (\<lambda>h. if h = rev ''ABCDEFGHIJKLMNOPQRSTUVWXYZ'' then Inr (7, 100)
                     else Inl ''record not found''),
      GetByID = (\<lambda>u. Inr (True, {''movies:read''}))\<rparr>"

text \<open>The sample world with a burst of 8 in place of 4, and its flag variables.\<close>

definition burst_8_world :: "flagvars world" where
  "burst_8_world = with_setting ''LIMITER_BURST'' ''8''"

definition burst_8_vars :: flagvars where
  "burst_8_vars =
     sample_vars\<lparr>vars_cfg := (vars_cfg sample_vars)\<lparr>limiter := \<lparr>rps = 2, burst = 8, enabled = True\<rparr>\<rparr>\<rparr>"

section \<open>openDB: the pool and the error\<close>

lemma openDB_cases:
  "(\<exists>err. openDB w cfg = (None, Some err)) \<or> (\<exists>pool. openDB w cfg = (Some pool, None))"
  by (simp add: openDB_def Let_def split: option.split sum.split)

lemma sample_openDB:
  "openDB (sample_world :: 'f world) sample_cfg =
     (Some \<lparr>driverName = ''pgx'', dataSourceName = ''postgres://greenlight'',
            MaxOpenConns = Some 25, MaxIdleConns = Some 20,
            ConnMaxIdleTime = Some (900 * Second)\<rparr>, None)"
  by (simp add: openDB_def sample_world_def sample_cfg_def Let_def SetMaxOpenConns_def
        SetMaxIdleConns_def SetConnMaxIdleTime_def)

text \<open>
  C7. \<^verbatim>\<open>openDB\<close> returns a pool exactly when it returns no error. A pool it returns
  was opened on the configured URL and has been given the configured maximum of open
  connections, the configured maximum of idle connections and the parsed idle time.
  When the idle-time string does not parse, and when the ping of the configured pool
  under its deadline of 5 seconds returns an error, \<^verbatim>\<open>openDB\<close> returns an error and
  no pool.
\<close>

theorem openDB_contract:
  "(fst (openDB w cfg) \<noteq> None \<longleftrightarrow> snd (openDB w cfg) = None)
   \<and> (\<forall>pool. fst (openDB w cfg) = Some pool \<longrightarrow>
          dataSourceName pool = url (db cfg)
        \<and> MaxOpenConns pool = Some (maxOpenConns (db cfg))
        \<and> MaxIdleConns pool = Some (maxIdleConns (db cfg))
        \<and> (\<exists>d. ParseDuration w (maxIdleTime (db cfg)) = Inr d \<and> ConnMaxIdleTime pool = Some d))
   \<and> ((\<exists>err. ParseDuration w (maxIdleTime (db cfg)) = Inl err) \<longrightarrow>
          fst (openDB w cfg) = None \<and> snd (openDB w cfg) \<noteq> None)
   \<and> (\<forall>d. ParseDuration w (maxIdleTime (db cfg)) = Inr d \<longrightarrow>
          PingContext w
            \<lparr>driverName = ''pgx'', dataSourceName = url (db cfg),
             MaxOpenConns = Some (maxOpenConns (db cfg)),
             MaxIdleConns = Some (maxIdleConns (db cfg)),
             ConnMaxIdleTime = Some d\<rparr> (5 * Second) \<noteq> None \<longrightarrow>
          fst (openDB w cfg) = None \<and> snd (openDB w cfg) \<noteq> None)"
  by (auto simp add: openDB_def Let_def SetMaxOpenConns_def SetMaxIdleConns_def
        SetConnMaxIdleTime_def split: option.splits sum.splits)

theorem openDB_contract_witness:
  "fst (openDB (sample_world :: unit world) sample_cfg) \<noteq> None
   \<and> snd (openDB (sample_world :: unit world) sample_cfg) = None
   \<and> MaxOpenConns (the (fst (openDB (sample_world :: unit world) sample_cfg))) = Some 25
   \<and> MaxIdleConns (the (fst (openDB (sample_world :: unit world) sample_cfg))) = Some 20
   \<and> ConnMaxIdleTime (the (fst (openDB (sample_world :: unit world) sample_cfg)))
       = Some (900 * Second)
   \<and> fst (openDB ((sample_world :: unit world)
             \<lparr>ParseDuration := \<lambda>s. Inl ''time: invalid duration''\<rparr>) sample_cfg) = None
   \<and> snd (openDB ((sample_world :: unit world)
             \<lparr>ParseDuration := \<lambda>s. Inl ''time: invalid duration''\<rparr>) sample_cfg) \<noteq> None
   \<and> fst (openDB ((sample_world :: unit world)
             \<lparr>PingContext := \<lambda>pool t. if t \<le> 5 * Second
                                       then Some ''context deadline exceeded'' else None\<rparr>)
             sample_cfg) = None
   \<and> snd (openDB ((sample_world :: unit world)
             \<lparr>PingContext := \<lambda>pool t. if t \<le> 5 * Second
                                       then Some ''context deadline exceeded'' else None\<rparr>)
             sample_cfg) \<noteq> None"
proof -
  let ?w = "sample_world :: unit world"
  let ?w1 = "?w\<lparr>ParseDuration := \<lambda>s. Inl ''time: invalid duration''\<rparr>"
  let ?w2 = "?w\<lparr>PingContext := \<lambda>pool t. if t \<le> 5 * Second
                                          then Some ''context deadline exceeded'' else None\<rparr>"
  have ok: "fst (openDB ?w sample_cfg) =
      Some \<lparr>driverName = ''pgx'', dataSourceName = ''postgres://greenlight'',
            MaxOpenConns = Some 25, MaxIdleConns = Some 20,
            ConnMaxIdleTime = Some (900 * Second)\<rparr>"
    by (simp add: sample_openDB)
  have d1: "\<exists>err. ParseDuration ?w1 (maxIdleTime (db sample_cfg)) = Inl err"
    by simp
  have d2: "ParseDuration ?w2 (maxIdleTime (db sample_cfg)) = Inr (900 * Second)"
    by (simp add: sample_world_def sample_cfg_def)
  have p2: "PingContext ?w2
            \<lparr>driverName = ''pgx'', dataSourceName = url (db sample_cfg),
             MaxOpenConns = Some (maxOpenConns (db sample_cfg)),
             MaxIdleConns = Some (maxIdleConns (db sample_cfg)),
             ConnMaxIdleTime = Some (900 * Second)\<rparr> (5 * Second) \<noteq> None"
    by simp
  from openDB_contract [of ?w sample_cfg] openDB_contract [of ?w1 sample_cfg]
    openDB_contract [of ?w2 sample_cfg] ok d1 d2 p2
  show ?thesis by (simp add: sample_cfg_def)
qed

section \<open>The check of the environment name\<close>

lemma main_env_environment:
  "Getenv w ''ENVIRONEMNT'' \<notin> {''development'', ''staging'', ''production''} \<Longrightarrow>
   \<exists>err. main_env w = Inl err"
  by (simp add: main_env_def Let_def split: option.split sum.split)

lemma main_env_environment_msg:
  "Getenv w ''ENVIRONEMNT'' \<notin> {''development'', ''staging'', ''production''} \<Longrightarrow>
   godotenv_Load w = None \<Longrightarrow> Atoi w (Getenv w ''PORT'') = Inr p \<Longrightarrow>
   main_env w = Inl (''invalid environment '' @ Getenv w ''ENVIRONEMNT'')"
  by (simp add: main_env_def Let_def)

lemma main_env_smtp_Inl: "main_env w = Inl err \<Longrightarrow> main_env_smtp w = Inl err"
  by (simp add: main_env_smtp_def)

lemma main_001_Inl: "main_env w = Inl err \<Longrightarrow> main_001 w = fatal [] err"
  by (simp add: main_001_def)

lemma main_Inl: "main_env_smtp w = Inl err \<Longrightarrow> main w = fatal [] err"
  by (simp add: main_def)

lemma Getenv_unset: "environ w k = None \<Longrightarrow> Getenv w k = []"
  by (simp add: Getenv_def)

text \<open>
  C9. In \<^verbatim>\<open>unnamed/part_001\<close> and in \<^verbatim>\<open>unnamed/part_002\<close>, when the environment
  variable \<^verbatim>\<open>ENVIRONEMNT\<close> is not one of \<^verbatim>\<open>development\<close>, \<^verbatim>\<open>staging\<close>,
  \<^verbatim>\<open>production\<close>, the run ends inside \<^verbatim>\<open>logger.PrintFatal\<close> with a non-zero
  status and an empty trace: nothing was printed, no pool was opened and no server was
  started. When the \<^verbatim>\<open>.env\<close> file and \<^verbatim>\<open>PORT\<close> passed their checks, the error is
  the one of the environment check. This holds in particular when the variable is unset:
  the default \<^verbatim>\<open>"development"\<close> of the flag is not used for the check.
\<close>

theorem environment_check:
  "(Getenv w1 ''ENVIRONEMNT'' \<notin> {''development'', ''staging'', ''production''} \<longrightarrow>
      trace (main_001 w1) = [] \<and> (\<exists>err. ending (main_001 w1) = PrintFatal err)
    \<and> exit_status (ending (main_001 w1)) \<noteq> 0
    \<and> (\<forall>p. godotenv_Load w1 = None \<and> Atoi w1 (Getenv w1 ''PORT'') = Inr p \<longrightarrow>
          ending (main_001 w1) = PrintFatal (''invalid environment '' @ Getenv w1 ''ENVIRONEMNT'')))
   \<and> (Getenv w2 ''ENVIRONEMNT'' \<notin> {''development'', ''staging'', ''production''} \<longrightarrow>
      trace (main w2) = [] \<and> (\<exists>err. ending (main w2) = PrintFatal err)
    \<and> exit_status (ending (main w2)) \<noteq> 0
    \<and> (\<forall>p. godotenv_Load w2 = None \<and> Atoi w2 (Getenv w2 ''PORT'') = Inr p \<longrightarrow>
          ending (main w2) = PrintFatal (''invalid environment '' @ Getenv w2 ''ENVIRONEMNT'')))
   \<and> (environ w1 ''ENVIRONEMNT'' = None \<longrightarrow> (\<exists>err. ending (main_001 w1) = PrintFatal err))
   \<and> (environ w2 ''ENVIRONEMNT'' = None \<longrightarrow> (\<exists>err. ending (main w2) = PrintFatal err))"
proof (intro conjI impI allI)
  assume a: "Getenv w1 ''ENVIRONEMNT'' \<notin> {''development'', ''staging'', ''production''}"
  then obtain err where e: "main_env w1 = Inl err" using main_env_environment by blast
  show "trace (main_001 w1) = []"
    using e by (simp add: main_001_Inl fatal_def)
  show "\<exists>err. ending (main_001 w1) = PrintFatal err"
    using e by (simp add: main_001_Inl fatal_def)
  show "exit_status (ending (main_001 w1)) \<noteq> 0"
    using e by (simp add: main_001_Inl fatal_def)
  fix p assume "godotenv_Load w1 = None \<and> Atoi w1 (Getenv w1 ''PORT'') = Inr p"
  then show "ending (main_001 w1) = PrintFatal (''invalid environment '' @ Getenv w1 ''ENVIRONEMNT'')"
    using main_env_environment_msg [OF a, of p] by (simp add: main_001_Inl fatal_def)
next
  assume a: "Getenv w2 ''ENVIRONEMNT'' \<notin> {''development'', ''staging'', ''production''}"
  then obtain err where e: "main_env w2 = Inl err" using main_env_environment by blast
  show "trace (main w2) = []"
    using e by (simp add: main_Inl main_env_smtp_Inl fatal_def)
  show "\<exists>err. ending (main w2) = PrintFatal err"
    using e by (simp add: main_Inl main_env_smtp_Inl fatal_def)
  show "exit_status (ending (main w2)) \<noteq> 0"
    using e by (simp add: main_Inl main_env_smtp_Inl fatal_def)
  fix p assume "godotenv_Load w2 = None \<and> Atoi w2 (Getenv w2 ''PORT'') = Inr p"
  then show "ending (main w2) = PrintFatal (''invalid environment '' @ Getenv w2 ''ENVIRONEMNT'')"
    using main_env_environment_msg [OF a, of p] by (simp add: main_Inl main_env_smtp_Inl fatal_def)
next
  assume "environ w1 ''ENVIRONEMNT'' = None"
  then have "Getenv w1 ''ENVIRONEMNT'' \<notin> {''development'', ''staging'', ''production''}"
    by (simp add: Getenv_unset)
  then obtain err where e: "main_env w1 = Inl err" using main_env_environment by blast
  then show "\<exists>err. ending (main_001 w1) = PrintFatal err"
    by (simp add: main_001_Inl fatal_def)
next
  assume "environ w2 ''ENVIRONEMNT'' = None"
  then have "Getenv w2 ''ENVIRONEMNT'' \<notin> {''development'', ''staging'', ''production''}"
    by (simp add: Getenv_unset)
  then obtain err where e: "main_env w2 = Inl err" using main_env_environment by blast
  then show "\<exists>err. ending (main w2) = PrintFatal err"
    by (simp add: main_Inl main_env_smtp_Inl fatal_def)
qed

lemma unset_env_facts:
  "environ (unset_environment_world :: 'f world) ''ENVIRONEMNT'' = None"
  "Getenv (unset_environment_world :: 'f world) ''ENVIRONEMNT'' = []"
  "Getenv (unset_environment_world :: 'f world) ''PORT'' = ''4000''"
  "godotenv_Load (unset_environment_world :: 'f world) = None"
  "Atoi (unset_environment_world :: 'f world) ''4000'' = Inr 4000"
  by (simp_all add: unset_environment_world_def sample_world_def sample_environ_def Getenv_def sample_Atoi_def)

theorem environment_check_witness:
  "trace (main_001 unset_environment_world) = []
   \<and> ending (main_001 unset_environment_world) = PrintFatal ''invalid environment ''
   \<and> trace (main unset_environment_world) = []
   \<and> ending (main unset_environment_world) = PrintFatal ''invalid environment ''
   \<and> exit_status (ending (main_001 unset_environment_world)) \<noteq> 0
   \<and> exit_status (ending (main unset_environment_world)) \<noteq> 0"
  using environment_check [of "unset_environment_world" "unset_environment_world"]
  by (simp add: unset_env_facts)

section \<open>What the configuration depends on\<close>

lemma Getenv_frame: "k \<noteq> n \<Longrightarrow> Getenv (w\<lparr>environ := (environ w)(k := v)\<rparr>) n = Getenv w n"
  by (simp add: Getenv_def)

lemma openDB_environ: "openDB (w\<lparr>environ := e\<rparr>) cfg = openDB w cfg"
  by (simp add: openDB_def Let_def cong: option.case_cong sum.case_cong)

lemma main_env_frame:
  "k \<notin> set [''PORT'', ''ENVIRONEMNT'', ''POSTGRESQL_URL'', ''POSTGRESQL_MAX_OPEN_CONNS'',
              ''POSTGRESQL_MAX_IDLE_CONNS'', ''POSTGRESQL_MAX_IDLE_TIME'', ''LIMITER_RPS'',
              ''LIMITER_BURST'', ''LIMITER_ENABLED''] \<Longrightarrow>
   main_env (w\<lparr>environ := (environ w)(k := v)\<rparr>) = main_env w"
  unfolding main_env_def
  by (simp add: Getenv_frame Let_def cong: option.case_cong sum.case_cong if_cong)

lemma main_env_smtp_frame:
  "k \<notin> set [''PORT'', ''ENVIRONEMNT'', ''POSTGRESQL_URL'', ''POSTGRESQL_MAX_OPEN_CONNS'',
              ''POSTGRESQL_MAX_IDLE_CONNS'', ''POSTGRESQL_MAX_IDLE_TIME'', ''LIMITER_RPS'',
              ''LIMITER_BURST'', ''LIMITER_ENABLED'', ''SMTP_HOST'', ''SMTP_PORT'',
              ''SMTP_USERNAME'', ''SMTP_PASSWORD'', ''SMTP_SENDER'', ''CORS_TRUSTED_ORIGINS''] \<Longrightarrow>
   main_env_smtp (w\<lparr>environ := (environ w)(k := v)\<rparr>) = main_env_smtp w"
  unfolding main_env_smtp_def
  by (simp add: Getenv_frame main_env_frame Let_def cong: option.case_cong sum.case_cong if_cong)

section \<open>main of unnamed/part_002 after the checks\<close>

lemma main_after_Parse:
  "main_env_smtp w = Inr vars0 \<Longrightarrow> flag_Parse w vars0 = Inr vars \<Longrightarrow>
   main w =
     (let cfg = (vars_cfg vars)\<lparr>cors := cors (vars_cfg vars0)\<rparr> in
      if vars_displayVersion vars
      then \<lparr>trace = [E_Stdout (''Version:'' @ [CHR 0x09] @ Version (ReadBuildInfo w) @ [CHR 0x0A])],
            ending = os_Exit 0\<rparr>
      else
        (case openDB w cfg of
           (pool, Some err) \<Rightarrow> fatal [E_openDB] err
         | (pool, None) \<Rightarrow>
            (let tr = [E_openDB,
                       E_PrintInfo ''database connection pool established'' [],
                       E_expvar ''version'', E_expvar ''goroutines'',
                       E_expvar ''database'', E_expvar ''timestamp'',
                       E_serve cfg]
             in (case serve w of
                   Some err \<Rightarrow> fatal tr err
                 | None \<Rightarrow>
                    (case pool of
                       None \<Rightarrow> \<lparr>trace = tr, ending = Panic\<rparr>
                     | Some db' \<Rightarrow> \<lparr>trace = tr @ [E_db_Close], ending = Return\<rparr>)))))"
  by (simp add: main_def)

lemma main_Parse_exit:
  "main_env_smtp w = Inr vars0 \<Longrightarrow> flag_Parse w vars0 = Inl code \<Longrightarrow>
   main w = \<lparr>trace = [], ending = os_Exit code\<rparr>"
  by (simp add: main_def)

lemma main_version:
  "main_env_smtp w = Inr vars0 \<Longrightarrow> flag_Parse w vars0 = Inr vars \<Longrightarrow> vars_displayVersion vars \<Longrightarrow>
   main w = \<lparr>trace = [E_Stdout (''Version:'' @ [CHR 0x09] @ Version (ReadBuildInfo w) @ [CHR 0x0A])],
             ending = os_Exit 0\<rparr>"
  by (simp add: main_after_Parse)


lemma main_serves:
  "main_env_smtp w = Inr vars0 \<Longrightarrow> flag_Parse w vars0 = Inr vars \<Longrightarrow>
   \<not> vars_displayVersion vars \<Longrightarrow>
   snd (openDB w ((vars_cfg vars)\<lparr>cors := cors (vars_cfg vars0)\<rparr>)) = None \<Longrightarrow>
   E_serve ((vars_cfg vars)\<lparr>cors := cors (vars_cfg vars0)\<rparr>) \<in> set (trace (main w))"
  by (cases "serve w")
     (auto simp add: main_after_Parse fatal_def Let_def split: prod.split option.split)

lemma main_serve_cfg:
  "E_serve c \<in> set (trace (main w)) \<Longrightarrow>
   \<exists>vars0 vars. main_env_smtp w = Inr vars0 \<and> flag_Parse w vars0 = Inr vars
     \<and> c = (vars_cfg vars)\<lparr>cors := cors (vars_cfg vars0)\<rparr>"
proof (cases "main_env_smtp w")
  case (Inl err)
  assume "E_serve c \<in> set (trace (main w))"
  with Inl show ?thesis by (simp add: main_Inl fatal_def)
next
  case (Inr vars0)
  assume s: "E_serve c \<in> set (trace (main w))"
  show ?thesis
  proof (cases "flag_Parse w vars0")
    case (Inl code)
    with Inr s show ?thesis by (simp add: main_Parse_exit)
  next
    case r: (Inr vars)
    show ?thesis
      using s openDB_cases [of w "(vars_cfg vars)\<lparr>cors := cors (vars_cfg vars0)\<rparr>"]
      by (cases "serve w")
         (auto simp add: main_after_Parse [OF Inr r] Inr r fatal_def Let_def split: if_splits)
  qed
qed


lemma main_001_listen_cfg:
  "E_ListenAndServe c a \<in> set (trace (main_001 w)) \<Longrightarrow>
   (\<exists>cfg0. main_env w = Inr cfg0 \<and> flag_Parse w cfg0 = Inr c)
   \<and> ending (main_001 w) = PrintFatal (ListenAndServe w a)"
  by (auto simp add: main_001_def fatal_def Let_def split: option.splits sum.splits)


lemma main_limiter_differs:
  assumes "E_serve c \<in> set (trace (main w))" and "E_serve c' \<in> set (trace (main w'))"
    and "limiter c \<noteq> limiter c'"
  shows "main w \<noteq> main w'"
proof
  assume eq: "main w = main w'"
  with assms(2) have "E_serve c' \<in> set (trace (main w))" by simp
  from main_serve_cfg [OF assms(1)] main_serve_cfg [OF this]
  have "c = c'" by auto
  with assms(3) show False by simp
qed

lemma main_001_limiter_differs:
  assumes "E_ListenAndServe c a \<in> set (trace (main_001 w))"
    and "E_ListenAndServe c' a' \<in> set (trace (main_001 w'))"
    and "limiter c \<noteq> limiter c'"
  shows "main_001 w \<noteq> main_001 w'"
proof
  assume eq: "main_001 w = main_001 w'"
  with assms(2) have "E_ListenAndServe c' a' \<in> set (trace (main_001 w))" by simp
  from main_001_listen_cfg [OF assms(1)] main_001_listen_cfg [OF this]
  have "c = c'" by auto
  with assms(3) show False by simp
qed

section \<open>The sample world, evaluated\<close>

lemma sample_Getenv:
  "Getenv (sample_world :: 'f world) ''PORT'' = ''4000''"
  "Getenv (sample_world :: 'f world) ''ENVIRONEMNT'' = ''production''"
  "Getenv (sample_world :: 'f world) ''POSTGRESQL_URL'' = ''postgres://greenlight''"
  "Getenv (sample_world :: 'f world) ''POSTGRESQL_MAX_OPEN_CONNS'' = ''25''"
  "Getenv (sample_world :: 'f world) ''POSTGRESQL_MAX_IDLE_CONNS'' = ''20''"
  "Getenv (sample_world :: 'f world) ''POSTGRESQL_MAX_IDLE_TIME'' = ''15m''"
  "Getenv (sample_world :: 'f world) ''LIMITER_RPS'' = ''2''"
  "Getenv (sample_world :: 'f world) ''LIMITER_BURST'' = ''4''"
  "Getenv (sample_world :: 'f world) ''LIMITER_ENABLED'' = ''true''"
  "Getenv (sample_world :: 'f world) ''SMTP_HOST'' = ''smtp.example.com''"
  "Getenv (sample_world :: 'f world) ''SMTP_PORT'' = ''587''"
  "Getenv (sample_world :: 'f world) ''SMTP_USERNAME'' = ''user''"
  "Getenv (sample_world :: 'f world) ''SMTP_PASSWORD'' = ''secret''"
  "Getenv (sample_world :: 'f world) ''SMTP_SENDER'' = ''noreply''"
  "Getenv (sample_world :: 'f world) ''CORS_TRUSTED_ORIGINS'' = []"
  by (simp_all add: Getenv_def sample_world_def sample_environ_def)

lemma sample_Atoi_values:
  "sample_Atoi ''4000'' = Inr 4000" "sample_Atoi ''25'' = Inr 25" "sample_Atoi ''20'' = Inr 20"
  "sample_Atoi ''4'' = Inr 4" "sample_Atoi ''587'' = Inr 587"
  by (simp_all add: sample_Atoi_def)

lemma sample_fields:
  "godotenv_Load (sample_world :: 'f world) = None"
  "Atoi (sample_world :: 'f world) = sample_Atoi"
  "ParseFloat (sample_world :: 'f world) ''2'' = Inr 2"
  "ParseBool (sample_world :: 'f world) ''true'' = Inr True"
  "Fields (sample_world :: 'f world) [] = []"
  "flag_Parse (sample_world :: 'f world) = Inr"
  "serve (sample_world :: 'f world) = None"
  "ListenAndServe (sample_world :: 'f world) a = ''http: Server closed''"
  "ReadBuildInfo (sample_world :: 'f world) = Some [(''vcs.time'', ''2024''), (''vcs.revision'', ''abc'')]"
  by (simp_all add: sample_world_def)

lemma sample_main_env: "main_env (sample_world :: 'f world) = Inr sample_cfg_001"
  by (simp add: main_env_def sample_Getenv sample_fields sample_Atoi_values sample_cfg_001_def)

lemma sample_main_env_smtp: "main_env_smtp (sample_world :: 'f world) = Inr sample_vars"
  by (simp add: main_env_smtp_def sample_main_env sample_Getenv sample_fields
        sample_Atoi_values sample_cfg_001_def sample_vars_def)

lemma sample_openDB_any:
  "maxIdleTime (db cfg) = ''15m'' \<Longrightarrow>
   openDB (sample_world :: 'f world) cfg =
     (Some \<lparr>driverName = ''pgx'', dataSourceName = url (db cfg),
            MaxOpenConns = Some (maxOpenConns (db cfg)), MaxIdleConns = Some (maxIdleConns (db cfg)),
            ConnMaxIdleTime = Some (900 * Second)\<rparr>, None)"
  by (simp add: openDB_def sample_world_def Let_def SetMaxOpenConns_def
        SetMaxIdleConns_def SetConnMaxIdleTime_def)


lemma version_world_env: "main_env_smtp version_world = Inr sample_vars"
proof -
  have "main_env_smtp version_world = main_env_smtp (sample_world :: flagvars world)"
    by (simp add: main_env_smtp_def main_env_def Getenv_def version_world_def
          cong: option.case_cong sum.case_cong if_cong)
  then show ?thesis by (simp add: sample_main_env_smtp)
qed

lemma sample_Version: "Version (Some [(''vcs.time'', ''2024''), (''vcs.revision'', ''abc'')]) = ''2024-abc''"
  by (simp add: Version_def Version_case_def)


lemma with_setting_env:
  "k \<notin> set [''PORT'', ''ENVIRONEMNT'', ''POSTGRESQL_URL'', ''POSTGRESQL_MAX_OPEN_CONNS'',
              ''POSTGRESQL_MAX_IDLE_CONNS'', ''POSTGRESQL_MAX_IDLE_TIME'', ''LIMITER_RPS'',
              ''LIMITER_BURST'', ''LIMITER_ENABLED'', ''SMTP_HOST'', ''SMTP_PORT'',
              ''SMTP_USERNAME'', ''SMTP_PASSWORD'', ''SMTP_SENDER'', ''CORS_TRUSTED_ORIGINS''] \<Longrightarrow>
   main_env_smtp (with_setting k v) = Inr sample_vars"
  unfolding with_setting_def by (simp add: main_env_smtp_frame sample_main_env_smtp)

lemma burst_8_env: "main_env_smtp burst_8_world = Inr burst_8_vars"
  by (simp add: main_env_smtp_def main_env_def Getenv_def burst_8_world_def with_setting_def
        sample_world_def sample_environ_def sample_Atoi_def burst_8_vars_def sample_vars_def)

lemma burst_8_serves:
  "E_serve (vars_cfg burst_8_vars) \<in> set (trace (main burst_8_world))"
proof -
  have p: "flag_Parse burst_8_world burst_8_vars = Inr burst_8_vars"
    by (simp add: burst_8_world_def with_setting_def sample_world_def)
  have v: "\<not> vars_displayVersion burst_8_vars"
    by (simp add: burst_8_vars_def sample_vars_def)
  have t: "maxIdleTime (db (vars_cfg burst_8_vars)) = ''15m''"
    by (simp add: burst_8_vars_def sample_vars_def)
  have o: "snd (openDB burst_8_world ((vars_cfg burst_8_vars)\<lparr>cors := cors (vars_cfg burst_8_vars)\<rparr>)) = None"
    by (simp add: burst_8_world_def with_setting_def openDB_environ sample_openDB_any [OF t])
  from main_serves [OF burst_8_env p v o] show ?thesis by simp
qed

section \<open>The flag -version\<close>

text \<open>
  C10, as amended. When the checks of the environment that precede \<^verbatim>\<open>flag.Parse()\<close>
  pass and the command line sets \<^verbatim>\<open>-version\<close>, the run prints the version line and
  ends in \<^verbatim>\<open>os.Exit(0)\<close>, and that line is its whole trace. In every run whose
  command line sets \<^verbatim>\<open>-version\<close>, whether the checks pass or not, \<^verbatim>\<open>openDB\<close> is
  not called.
\<close>

theorem version_flag:
  "(\<forall>vars0 vars. main_env_smtp w = Inr vars0 \<and> flag_Parse w vars0 = Inr vars
        \<and> vars_displayVersion vars \<longrightarrow>
      main w = \<lparr>trace = [E_Stdout (''Version:'' @ [CHR 0x09] @ Version (ReadBuildInfo w)
                                     @ [CHR 0x0A])],
                ending = os_Exit 0\<rparr>
      \<and> exit_status (ending (main w)) = 0)
   \<and> ((\<forall>vars0 vars. flag_Parse w vars0 = Inr vars \<longrightarrow> vars_displayVersion vars) \<longrightarrow>
        E_openDB \<notin> set (trace (main w)))"
proof (intro conjI allI impI)
  fix vars0 vars
  assume a: "main_env_smtp w = Inr vars0 \<and> flag_Parse w vars0 = Inr vars \<and> vars_displayVersion vars"
  then show "main w = \<lparr>trace = [E_Stdout (''Version:'' @ [CHR 0x09] @ Version (ReadBuildInfo w)
                                     @ [CHR 0x0A])], ending = os_Exit 0\<rparr>"
    by (simp add: main_version)
  from a show "exit_status (ending (main w)) = 0"
    by (simp add: main_version)
next
  assume all: "\<forall>vars0 vars. flag_Parse w vars0 = Inr vars \<longrightarrow> vars_displayVersion vars"
  show "E_openDB \<notin> set (trace (main w))"
  proof (cases "main_env_smtp w")
    case (Inl err)
    then show ?thesis by (simp add: main_Inl fatal_def)
  next
    case (Inr vars0)
    show ?thesis
    proof (cases "flag_Parse w vars0")
      case (Inl code)
      with Inr show ?thesis by (simp add: main_Parse_exit)
    next
      case r: (Inr vars)
      with all have "vars_displayVersion vars" by blast
      with Inr r show ?thesis by (simp add: main_version)
    qed
  qed
qed

theorem version_flag_witness:
  "main version_world = \<lparr>trace = [E_Stdout (''Version:'' @ [CHR 0x09] @ ''2024-abc'' @ [CHR 0x0A])],
                          ending = os_Exit 0\<rparr>
   \<and> exit_status (ending (main version_world)) = 0
   \<and> E_openDB \<notin> set (trace (main version_world))"
proof -
  have p: "flag_Parse version_world sample_vars = Inr (sample_vars\<lparr>vars_displayVersion := True\<rparr>)"
    by (simp add: version_world_def)
  have q: "\<forall>vars0 vars. flag_Parse version_world vars0 = Inr vars \<longrightarrow> vars_displayVersion vars"
    by (auto simp add: version_world_def)
  have b: "ReadBuildInfo version_world = Some [(''vcs.time'', ''2024''), (''vcs.revision'', ''abc'')]"
    by (simp add: version_world_def sample_world_def)
  from version_flag [of version_world] version_world_env p q
  have "main version_world = \<lparr>trace = [E_Stdout (''Version:'' @ [CHR 0x09] @ Version (ReadBuildInfo version_world) @ [CHR 0x0A])], ending = os_Exit 0\<rparr>
      \<and> exit_status (ending (main version_world)) = 0 \<and> E_openDB \<notin> set (trace (main version_world))"
    by simp
  then show ?thesis by (simp add: b sample_Version)
qed

text \<open>
  C10 as stated fails where \<^verbatim>\<open>.env\<close> cannot be loaded: with \<^verbatim>\<open>-version\<close> on the
  command line, the run prints no version and ends inside \<^verbatim>\<open>logger.PrintFatal\<close>,
  with status 1.
\<close>

theorem version_flag_counterexample:
  "flag_Parse version_no_dotenv_world sample_vars = Inr (sample_vars\<lparr>vars_displayVersion := True\<rparr>)
   \<and> main version_no_dotenv_world =
       \<lparr>trace = [], ending = PrintFatal ''open .env: no such file or directory''\<rparr>
   \<and> exit_status (ending (main version_no_dotenv_world)) = 1"
  by (simp add: main_def main_env_smtp_def main_env_def version_no_dotenv_world_def
        version_world_def fatal_def)

section \<open>The exit status\<close>









section \<open>The settings read from the environment\<close>

lemma main_env_limiter:
  "main_env w = Inr cfg0 \<Longrightarrow>
   ParseFloat w (Getenv w ''LIMITER_RPS'') = Inr (rps (limiter cfg0))
   \<and> Atoi w (Getenv w ''LIMITER_BURST'') = Inr (burst (limiter cfg0))
   \<and> ParseBool w (Getenv w ''LIMITER_ENABLED'') = Inr (enabled (limiter cfg0))"
  by (auto simp add: main_env_def Let_def split: option.splits sum.splits if_splits)

lemma main_env_smtp_limiter:
  "main_env_smtp w = Inr vars0 \<Longrightarrow> \<exists>cfg0. main_env w = Inr cfg0 \<and> limiter (vars_cfg vars0) = limiter cfg0"
  by (auto simp add: main_env_smtp_def Let_def split: sum.splits if_splits)

text \<open>
  C1, as amended. Of the six settings, \<^verbatim>\<open>config\<close> carries the three of the rate
  limiter, and these are read from configuration and affect behaviour. When the checks
  of the environment pass, \<^verbatim>\<open>cfg.limiter\<close> holds what \<^verbatim>\<open>LIMITER_RPS\<close>,
  \<^verbatim>\<open>LIMITER_BURST\<close> and \<^verbatim>\<open>LIMITER_ENABLED\<close> parse to, as the defaults of the
  flags of these names. A run that passes \<^verbatim>\<open>openDB\<close> calls \<^verbatim>\<open>app.serve()\<close> (in
  \<^verbatim>\<open>unnamed/part_001\<close>, \<^verbatim>\<open>srv.ListenAndServe()\<close>) on an application whose
  limiter settings are those \<^verbatim>\<open>flag.Parse()\<close> left, and two runs that serve
  applications with different limiter settings are different runs. A shutdown grace
  period, an idle threshold and a sweep interval of the limiter are not read: the
  configuration \<^verbatim>\<open>main\<close> builds from the environment is the same whatever the
  environment holds under a name that is not one of the fifteen (in
  \<^verbatim>\<open>unnamed/part_001\<close>, nine) that \<^verbatim>\<open>main\<close> passes to \<^verbatim>\<open>os.Getenv\<close>.
\<close>

theorem configuration_read:
  "(\<forall>vars0. main_env_smtp w = Inr vars0 \<longrightarrow>
          ParseFloat w (Getenv w ''LIMITER_RPS'') = Inr (rps (limiter (vars_cfg vars0)))
        \<and> Atoi w (Getenv w ''LIMITER_BURST'') = Inr (burst (limiter (vars_cfg vars0)))
        \<and> ParseBool w (Getenv w ''LIMITER_ENABLED'') = Inr (enabled (limiter (vars_cfg vars0))))
   \<and> (\<forall>cfg0. main_env w1 = Inr cfg0 \<longrightarrow>
          ParseFloat w1 (Getenv w1 ''LIMITER_RPS'') = Inr (rps (limiter cfg0))
        \<and> Atoi w1 (Getenv w1 ''LIMITER_BURST'') = Inr (burst (limiter cfg0))
        \<and> ParseBool w1 (Getenv w1 ''LIMITER_ENABLED'') = Inr (enabled (limiter cfg0)))
   \<and> (\<forall>vars0 vars. main_env_smtp w = Inr vars0 \<and> flag_Parse w vars0 = Inr vars
          \<and> \<not> vars_displayVersion vars
          \<and> snd (openDB w ((vars_cfg vars)\<lparr>cors := cors (vars_cfg vars0)\<rparr>)) = None \<longrightarrow>
          E_serve ((vars_cfg vars)\<lparr>cors := cors (vars_cfg vars0)\<rparr>) \<in> set (trace (main w)))
   \<and> (\<forall>c. E_serve c \<in> set (trace (main w)) \<longrightarrow>
          (\<exists>vars0 vars. main_env_smtp w = Inr vars0 \<and> flag_Parse w vars0 = Inr vars
             \<and> limiter c = limiter (vars_cfg vars)))
   \<and> (\<forall>c a. E_ListenAndServe c a \<in> set (trace (main_001 w1)) \<longrightarrow>
          (\<exists>cfg0. main_env w1 = Inr cfg0 \<and> flag_Parse w1 cfg0 = Inr c))
   \<and> (\<forall>w' c c'. E_serve c \<in> set (trace (main w)) \<and> E_serve c' \<in> set (trace (main w'))
          \<and> limiter c \<noteq> limiter c' \<longrightarrow> main w \<noteq> main w')
   \<and> (\<forall>w1' c a c' a'. E_ListenAndServe c a \<in> set (trace (main_001 w1))
          \<and> E_ListenAndServe c' a' \<in> set (trace (main_001 w1'))
          \<and> limiter c \<noteq> limiter c' \<longrightarrow> main_001 w1 \<noteq> main_001 w1')
   \<and> (\<forall>k v. k \<notin> set [''PORT'', ''ENVIRONEMNT'', ''POSTGRESQL_URL'', ''POSTGRESQL_MAX_OPEN_CONNS'',
                     ''POSTGRESQL_MAX_IDLE_CONNS'', ''POSTGRESQL_MAX_IDLE_TIME'', ''LIMITER_RPS'',
                     ''LIMITER_BURST'', ''LIMITER_ENABLED'', ''SMTP_HOST'', ''SMTP_PORT'',
                     ''SMTP_USERNAME'', ''SMTP_PASSWORD'', ''SMTP_SENDER'',
                     ''CORS_TRUSTED_ORIGINS''] \<longrightarrow>
          main_env_smtp (w\<lparr>environ := (environ w)(k := v)\<rparr>) = main_env_smtp w)
   \<and> (\<forall>k v. k \<notin> set [''PORT'', ''ENVIRONEMNT'', ''POSTGRESQL_URL'', ''POSTGRESQL_MAX_OPEN_CONNS'',
                     ''POSTGRESQL_MAX_IDLE_CONNS'', ''POSTGRESQL_MAX_IDLE_TIME'', ''LIMITER_RPS'',
                     ''LIMITER_BURST'', ''LIMITER_ENABLED''] \<longrightarrow>
          main_env (w1\<lparr>environ := (environ w1)(k := v)\<rparr>) = main_env w1)"
proof (intro conjI allI impI)
  fix vars0 assume a: "main_env_smtp w = Inr vars0"
  then obtain cfg0 where c: "main_env w = Inr cfg0" "limiter (vars_cfg vars0) = limiter cfg0"
    using main_env_smtp_limiter by blast
  from main_env_limiter [OF c(1)] c(2)
  show "ParseFloat w (Getenv w ''LIMITER_RPS'') = Inr (rps (limiter (vars_cfg vars0)))"
    and "Atoi w (Getenv w ''LIMITER_BURST'') = Inr (burst (limiter (vars_cfg vars0)))"
    and "ParseBool w (Getenv w ''LIMITER_ENABLED'') = Inr (enabled (limiter (vars_cfg vars0)))"
    by simp_all
next
  fix cfg0 assume a: "main_env w1 = Inr cfg0"
  from main_env_limiter [OF a]
  show "ParseFloat w1 (Getenv w1 ''LIMITER_RPS'') = Inr (rps (limiter cfg0))"
    and "Atoi w1 (Getenv w1 ''LIMITER_BURST'') = Inr (burst (limiter cfg0))"
    and "ParseBool w1 (Getenv w1 ''LIMITER_ENABLED'') = Inr (enabled (limiter cfg0))"
    by simp_all
next
  fix vars0 vars
  assume "main_env_smtp w = Inr vars0 \<and> flag_Parse w vars0 = Inr vars
          \<and> \<not> vars_displayVersion vars
          \<and> snd (openDB w ((vars_cfg vars)\<lparr>cors := cors (vars_cfg vars0)\<rparr>)) = None"
  then show "E_serve ((vars_cfg vars)\<lparr>cors := cors (vars_cfg vars0)\<rparr>) \<in> set (trace (main w))"
    by (simp add: main_serves)
next
  fix c assume "E_serve c \<in> set (trace (main w))"
  from main_serve_cfg [OF this]
  show "\<exists>vars0 vars. main_env_smtp w = Inr vars0 \<and> flag_Parse w vars0 = Inr vars
          \<and> limiter c = limiter (vars_cfg vars)"
    by auto
next
  fix c a assume "E_ListenAndServe c a \<in> set (trace (main_001 w1))"
  then show "\<exists>cfg0. main_env w1 = Inr cfg0 \<and> flag_Parse w1 cfg0 = Inr c"
    using main_001_listen_cfg by blast
next
  fix w' c c'
  assume "E_serve c \<in> set (trace (main w)) \<and> E_serve c' \<in> set (trace (main w'))
          \<and> limiter c \<noteq> limiter c'"
  then show "main w \<noteq> main w'"
    using main_limiter_differs by blast
next
  fix w1' c a c' a'
  assume "E_ListenAndServe c a \<in> set (trace (main_001 w1))
          \<and> E_ListenAndServe c' a' \<in> set (trace (main_001 w1'))
          \<and> limiter c \<noteq> limiter c'"
  then show "main_001 w1 \<noteq> main_001 w1'"
    using main_001_limiter_differs by blast
next
  fix k v
  assume "k \<notin> set [''PORT'', ''ENVIRONEMNT'', ''POSTGRESQL_URL'', ''POSTGRESQL_MAX_OPEN_CONNS'',
                     ''POSTGRESQL_MAX_IDLE_CONNS'', ''POSTGRESQL_MAX_IDLE_TIME'', ''LIMITER_RPS'',
                     ''LIMITER_BURST'', ''LIMITER_ENABLED'', ''SMTP_HOST'', ''SMTP_PORT'',
                     ''SMTP_USERNAME'', ''SMTP_PASSWORD'', ''SMTP_SENDER'',
                     ''CORS_TRUSTED_ORIGINS'']"
  then show "main_env_smtp (w\<lparr>environ := (environ w)(k := v)\<rparr>) = main_env_smtp w"
    by (rule main_env_smtp_frame)
next
  fix k v
  assume "k \<notin> set [''PORT'', ''ENVIRONEMNT'', ''POSTGRESQL_URL'', ''POSTGRESQL_MAX_OPEN_CONNS'',
                     ''POSTGRESQL_MAX_IDLE_CONNS'', ''POSTGRESQL_MAX_IDLE_TIME'', ''LIMITER_RPS'',
                     ''LIMITER_BURST'', ''LIMITER_ENABLED'']"
  then show "main_env (w1\<lparr>environ := (environ w1)(k := v)\<rparr>) = main_env w1"
    by (rule main_env_frame)
qed

theorem configuration_read_witness:
  "ParseFloat (sample_world :: flagvars world)
       (Getenv (sample_world :: flagvars world) ''LIMITER_RPS'') = Inr 2
   \<and> Atoi (sample_world :: flagvars world)
       (Getenv (sample_world :: flagvars world) ''LIMITER_BURST'') = Inr 4
   \<and> ParseBool (sample_world :: flagvars world)
       (Getenv (sample_world :: flagvars world) ''LIMITER_ENABLED'') = Inr True
   \<and> E_serve (vars_cfg sample_vars) \<in> set (trace (main sample_world))
   \<and> main sample_world \<noteq> main burst_8_world
   \<and> main_env_smtp (with_setting ''shutdown.gracePeriod'' ''5s'')
       = main_env_smtp (sample_world :: flagvars world)"
proof -
  note T = configuration_read [of "sample_world :: flagvars world" "sample_world :: config_001 world"]
  have e: "main_env_smtp (sample_world :: flagvars world) = Inr sample_vars"
    by (rule sample_main_env_smtp)
  have c1: "ParseFloat (sample_world :: flagvars world)
       (Getenv (sample_world :: flagvars world) ''LIMITER_RPS'') = Inr 2
   \<and> Atoi (sample_world :: flagvars world)
       (Getenv (sample_world :: flagvars world) ''LIMITER_BURST'') = Inr 4
   \<and> ParseBool (sample_world :: flagvars world)
       (Getenv (sample_world :: flagvars world) ''LIMITER_ENABLED'') = Inr True"
    using T [THEN conjunct1, rule_format, OF e]
    by (simp add: sample_vars_def)
  have p: "flag_Parse (sample_world :: flagvars world) sample_vars = Inr sample_vars"
    by (simp add: sample_fields)
  have v: "\<not> vars_displayVersion sample_vars"
    by (simp add: sample_vars_def)
  have t: "maxIdleTime (db (vars_cfg sample_vars)) = ''15m''"
    by (simp add: sample_vars_def)
  have o: "snd (openDB (sample_world :: flagvars world)
             ((vars_cfg sample_vars)\<lparr>cors := cors (vars_cfg sample_vars)\<rparr>)) = None"
    by (simp add: sample_openDB_any [OF t])
  have c2: "E_serve (vars_cfg sample_vars) \<in> set (trace (main sample_world))"
    using T [THEN conjunct2, THEN conjunct2, THEN conjunct1, rule_format,
             of sample_vars sample_vars] e p v o
    by simp
  have d: "limiter (vars_cfg sample_vars) \<noteq> limiter (vars_cfg burst_8_vars)"
    by (simp add: burst_8_vars_def sample_vars_def)
  have c3: "main sample_world \<noteq> main burst_8_world"
    using T [THEN conjunct2, THEN conjunct2, THEN conjunct2, THEN conjunct2, THEN conjunct2,
             THEN conjunct1, rule_format, of "vars_cfg sample_vars" "vars_cfg burst_8_vars"
             burst_8_world] c2 burst_8_serves d
    by simp
  have n: "''shutdown.gracePeriod'' \<notin> set [''PORT'', ''ENVIRONEMNT'', ''POSTGRESQL_URL'', ''POSTGRESQL_MAX_OPEN_CONNS'',
                     ''POSTGRESQL_MAX_IDLE_CONNS'', ''POSTGRESQL_MAX_IDLE_TIME'', ''LIMITER_RPS'',
                     ''LIMITER_BURST'', ''LIMITER_ENABLED'', ''SMTP_HOST'', ''SMTP_PORT'',
                     ''SMTP_USERNAME'', ''SMTP_PASSWORD'', ''SMTP_SENDER'',
                     ''CORS_TRUSTED_ORIGINS'']"
    by simp
  have c4: "main_env_smtp (with_setting ''shutdown.gracePeriod'' ''5s'')
       = main_env_smtp (sample_world :: flagvars world)"
    unfolding with_setting_def
    using T [THEN conjunct2, THEN conjunct2, THEN conjunct2, THEN conjunct2, THEN conjunct2,
             THEN conjunct2, THEN conjunct2, THEN conjunct1, rule_format, OF n] .
  from c1 c2 c3 c4 show ?thesis by blast
qed

text \<open>
  C1 as stated fails: the configuration \<^verbatim>\<open>main\<close> builds is the same for two values
  of a shutdown grace period, of an idle threshold and of a sweep interval in the
  environment. It holds a limiter of 2 requests per second with a burst of 4, and nothing
  of the three settings.
\<close>

theorem settings_not_read_counterexample:
  "main_env_smtp (with_setting ''shutdown.gracePeriod'' ''1s'') = Inr sample_vars
   \<and> main_env_smtp (with_setting ''shutdown.gracePeriod'' ''5s'') = Inr sample_vars
   \<and> main_env_smtp (with_setting ''limiter.idleThreshold'' ''1s'') = Inr sample_vars
   \<and> main_env_smtp (with_setting ''limiter.idleThreshold'' ''3m'') = Inr sample_vars
   \<and> main_env_smtp (with_setting ''limiter.sweepInterval'' ''1s'') = Inr sample_vars
   \<and> main_env_smtp (with_setting ''limiter.sweepInterval'' ''1m'') = Inr sample_vars"
  by (simp add: with_setting_env)

section \<open>The limiter of the spec\<close>

text \<open>
  C2. With \<^verbatim>\<open>rps=2\<close> and \<^verbatim>\<open>burst=4\<close>, five calls of \<^verbatim>\<open>Allow\<close> at one time for
  a key the limiter has not seen answer true four times, then false.
\<close>

theorem burst_then_reject:
  "m key = None \<Longrightarrow>
   fst (Allows \<lparr>rps = 2, burst = 4, enabled = True\<rparr>
          [(t, key), (t, key), (t, key), (t, key), (t, key)] m)
     = [True, True, True, True, False]"
  by (simp add: Allow_def refill_def new_bucket_def Let_def)

theorem burst_then_reject_witness:
  "fst (Allows \<lparr>rps = 2, burst = 4, enabled = True\<rparr>
          [(0, ''192.0.2.1''), (0, ''192.0.2.1''), (0, ''192.0.2.1''), (0, ''192.0.2.1''),
           (0, ''192.0.2.1'')] Map.empty)
     = [True, True, True, True, False]"
  using burst_then_reject [of Map.empty "''192.0.2.1''" 0] by simp

lemma refill_ok:
  assumes "bucket_ok t b" "t \<le> now"
  shows "bucket_ok now (refill b now)"
proof -
  from assms have e: "0 \<le> (now - lastRefill b) * refillRate b"
    by (simp add: bucket_ok_def)
  with assms show ?thesis
    by (simp add: bucket_ok_def refill_def Let_def min_def)
qed

lemma new_bucket_ok:
  "0 \<le> rps cfg \<Longrightarrow> 0 \<le> burst cfg \<Longrightarrow> bucket_ok now (new_bucket cfg now)"
  by (simp add: bucket_ok_def new_bucket_def)

lemma bucket_ok_later: "bucket_ok t b \<Longrightarrow> t \<le> now \<Longrightarrow> bucket_ok now b"
  by (simp add: bucket_ok_def)

lemma take_token_ok:
  "bucket_ok now b \<Longrightarrow> 1 \<le> tokens b \<Longrightarrow> bucket_ok now (b\<lparr>tokens := tokens b - 1\<rparr>)"
  by (simp add: bucket_ok_def)

lemma Allow_ok:
  assumes "limiter_ok t m" "t \<le> now" "0 \<le> rps cfg" "0 \<le> burst cfg"
  shows "limiter_ok now (snd (Allow cfg now key m))"
proof -
  let ?b0 = "case m key of None \<Rightarrow> new_bucket cfg now | Some e \<Rightarrow> bucket e"
  have b0: "bucket_ok now ?b0"
  proof (cases "m key")
    case None
    with assms(3,4) show ?thesis by (simp add: new_bucket_ok)
  next
    case (Some e)
    with assms(1) have "bucket_ok t (bucket e)" by (simp add: limiter_ok_def)
    with assms(2) Some show ?thesis by (simp add: bucket_ok_later)
  qed
  then have b: "bucket_ok now (refill ?b0 now)"
    using refill_ok [of now ?b0 now] by simp
  have old: "limiter_ok now m"
    using assms(1,2) by (fastforce simp add: limiter_ok_def bucket_ok_def)
  show ?thesis
    using b old take_token_ok [OF b]
    by (auto simp add: Allow_def Let_def limiter_ok_def)
qed

lemma Allow_states_ok:
  "limiter_ok t0 m \<Longrightarrow> sorted (t0 # map fst calls) \<Longrightarrow> 0 \<le> rps cfg \<Longrightarrow> 0 \<le> burst cfg \<Longrightarrow>
   m' \<in> set (Allow_states cfg calls m) \<Longrightarrow> \<exists>t. limiter_ok t m'"
proof (induction calls arbitrary: t0 m)
  case Nil
  then show ?case by simp
next
  case (Cons c calls)
  have le: "t0 \<le> fst c" using Cons.prems(2) by simp
  have step: "limiter_ok (fst c) (snd (Allow cfg (fst c) (snd c) m))"
    using Allow_ok [OF Cons.prems(1) le Cons.prems(3,4)] .
  have srt: "sorted (fst c # map fst calls)" using Cons.prems(2) by simp
  from Cons.prems(5) consider "m' = snd (Allow cfg (fst c) (snd c) m)"
    | "m' \<in> set (Allow_states cfg calls (snd (Allow cfg (fst c) (snd c) m)))"
    by auto
  then show ?case
  proof cases
    case 1
    with step show ?thesis by blast
  next
    case 2
    from Cons.IH [OF step srt Cons.prems(3,4) 2] show ?thesis .
  qed
qed

text \<open>
  The invariant of the data model on the tokens of a bucket is kept by every call under
  what the refill needs, which the spec does not state: a rate and a burst that are not
  negative, buckets within the invariant to begin with, and times that do not decrease.
\<close>

lemma tokens_within_capacity:
  assumes "0 \<le> rps cfg" and "0 \<le> burst cfg"
    and "limiter_ok t0 m" and "sorted (t0 # map fst calls)"
  shows "\<forall>m' \<in> set (Allow_states cfg calls m). \<forall>k e. m' k = Some e \<longrightarrow>
           0 \<le> tokens (bucket e) \<and> tokens (bucket e) \<le> capacity (bucket e)"
proof (intro ballI allI impI)
  fix m' k e
  assume "m' \<in> set (Allow_states cfg calls m)" and e: "m' k = Some e"
  then obtain t where "limiter_ok t m'"
    using Allow_states_ok [OF assms(3,4,1,2)] by blast
  with e show "0 \<le> tokens (bucket e) \<and> tokens (bucket e) \<le> capacity (bucket e)"
    by (auto simp add: limiter_ok_def bucket_ok_def)
qed

text \<open>
  Without them the refill takes the tokens below 0: with a rate of -1, a call ten
  seconds after the first leaves -7 tokens; with a burst of -1, the first call leaves -1.
\<close>

lemma tokens_negative:
  "Allow_states \<lparr>rps = - 1, burst = 4, enabled = True\<rparr> [(0, ''a''), (10, ''a'')] Map.empty =
     [[''a'' \<mapsto> \<lparr>bucket = \<lparr>capacity = 4, refillRate = - 1, tokens = 3, lastRefill = 0\<rparr>,
              lastSeen = 0\<rparr>],
      [''a'' \<mapsto> \<lparr>bucket = \<lparr>capacity = 4, refillRate = - 1, tokens = - 7, lastRefill = 10\<rparr>,
              lastSeen = 10\<rparr>]]"
  "Allow_states \<lparr>rps = 2, burst = - 1, enabled = True\<rparr> [(0, ''a'')] Map.empty =
     [[''a'' \<mapsto> \<lparr>bucket = \<lparr>capacity = - 1, refillRate = 2, tokens = - 1, lastRefill = 0\<rparr>,
              lastSeen = 0\<rparr>]]"
  by (simp_all add: Allow_def refill_def new_bucket_def Let_def)

lemma Allows_disabled:
  "\<not> enabled cfg \<Longrightarrow> Allows cfg calls m = (replicate (length calls) True, m)"
  by (induction calls arbitrary: m) (simp_all add: Allow_def)

text \<open>
  C6. With \<^verbatim>\<open>enabled=false\<close>, \<^verbatim>\<open>Allow\<close> answers true for every key and leaves the
  limiter's map as it is, in one call and in every sequence of calls.
\<close>

theorem disabled_allows_all:
  "\<not> enabled cfg \<Longrightarrow>
   Allow cfg now key m = (True, m)
   \<and> Allows cfg calls m = (replicate (length calls) True, m)"
  by (simp add: Allows_disabled Allow_def)

theorem disabled_allows_all_witness:
  "Allow \<lparr>rps = 2, burst = 4, enabled = False\<rparr> 0 ''a'' Map.empty = (True, Map.empty)
   \<and> Allows \<lparr>rps = 2, burst = 4, enabled = False\<rparr> [(0, ''a''), (0, ''a''), (0, ''b'')] Map.empty
       = ([True, True, True], Map.empty)"
proof -
  have d: "\<not> enabled \<lparr>rps = 2, burst = 4, enabled = False\<rparr>"
    by simp
  from disabled_allows_all [OF d, of 0 "''a''" Map.empty "[(0, ''a''), (0, ''a''), (0, ''b'')]"]
  show ?thesis by (simp del: Allows.simps)
qed

section \<open>The gate and the resolver of the spec\<close>

text \<open>
  C4. On the anonymous identity, a handler wrapped in \<^verbatim>\<open>RequirePermission(code)\<close>
  fails with \<^verbatim>\<open>AuthenticationRequiredError\<close>, not with
  \<^verbatim>\<open>PermissionDeniedError\<close>, for every code. On every identity the wrapped handler
  reports the first check that fails, in the order authentication, activation,
  permission, and runs the handler when all three pass.
\<close>

theorem gate_order:
  "RequirePermission code handler AnonymousIdentity = Inl AuthenticationRequiredError
   \<and> RequirePermission code handler AnonymousIdentity \<noteq> Inl PermissionDeniedError
   \<and> RequirePermission code handler i =
       (if i = AnonymousIdentity then Inl AuthenticationRequiredError
        else if \<not> activated i then Inl AccountNotActivatedError
        else if code \<notin> permissionSet i then Inl PermissionDeniedError
        else handler i)"
  by (simp add: RequirePermission_def RequireActivated_def RequireAuthenticated_def)

text \<open>
  C5. \<^verbatim>\<open>Resolve\<close> of no credential returns the anonymous identity and no error;
  \<^verbatim>\<open>Resolve\<close> of a credential whose token record has expired fails with
  \<^verbatim>\<open>InvalidCredentialError\<close>; and whatever the credential, the stored state after
  the call is the stored state before it.
\<close>

theorem Resolve_missing_expired:
  "Resolve st now None = (Inr AnonymousIdentity, st)
   \<and> (\<forall>c userId expiry. Lookup st (hash st c) = Inr (userId, expiry) \<and> expiry \<le> now \<longrightarrow>
         fst (Resolve st now (Some c)) = Inl InvalidCredentialError)
   \<and> snd (Resolve st now credential) = st"
  by (auto simp add: Resolve_def split: option.split sum.split prod.split)

theorem Resolve_missing_expired_witness:
  "Resolve sample_stores 200 None = (Inr AnonymousIdentity, sample_stores)
   \<and> fst (Resolve sample_stores 200 (Some ''ABCDEFGHIJKLMNOPQRSTUVWXYZ'')) = Inl InvalidCredentialError
   \<and> snd (Resolve sample_stores 200 (Some ''ABCDEFGHIJKLMNOPQRSTUVWXYZ'')) = sample_stores"
proof -
  have l: "Lookup sample_stores (hash sample_stores ''ABCDEFGHIJKLMNOPQRSTUVWXYZ'') = Inr (7, 100)
            \<and> (100::real) \<le> 200"
    by (simp add: sample_stores_def)
  from Resolve_missing_expired [of sample_stores 200 "Some ''ABCDEFGHIJKLMNOPQRSTUVWXYZ''"] l
  show ?thesis by blast
qed

end
